theory Spec2Isabelle
  imports Main
begin

section \<open>The eyewear user calibrator interface\<close>

text \<open>
  \<^verbatim>\<open>QCAR/EyewearUserCalibrator.h\<close> declares one class, \<^verbatim>\<open>EyewearUserCalibrator\<close>, whose
  members are all pure virtual: the header holds signatures and documentation and no
  method body. What the header fixes is the class declaration itself, so that is what is
  embedded, as data: the base class and the member functions with their parameter lists,
  return types and qualifiers, in the order of the header. The parameter types
  \<^verbatim>\<open>EyewearCalibrationReading\<close> and \<^verbatim>\<open>Matrix44F\<close> come from headers that this one only
  includes; they are kept by name. Nothing is said about the bodies that a subclass
  supplies: a \<^verbatim>\<open>const\<close> qualifier is recorded as the header writes it and is not read as
  a statement about what an overriding body does to the object.
\<close>

subsection \<open>The declaration\<close>

datatype access = Public | Protected | Private

datatype c_type =
    T_bool
  | T_int
  | T_float
  | T_EyewearCalibrationReading_array
  | T_Matrix44F_ref

record method_decl =
  m_name :: string
  m_params :: "(c_type \<times> string) list"
  m_return :: c_type
  m_const :: bool
  m_pure_virtual :: bool

record class_decl =
  c_name :: string
  c_bases :: "(access \<times> string) list"
  c_public :: "method_decl list"

definition init_decl :: method_decl where
  "init_decl =
    \<lparr> m_name = ''init'',
      m_params = [(T_int, ''surfaceWidth''), (T_int, ''surfaceHeight''),
                  (T_int, ''targetWidth''), (T_int, ''targetHeight'')],
      m_return = T_bool, m_const = False, m_pure_virtual = True \<rparr>"

definition getMinScaleHint_decl :: method_decl where
  "getMinScaleHint_decl =
    \<lparr> m_name = ''getMinScaleHint'', m_params = [],
      m_return = T_float, m_const = False, m_pure_virtual = True \<rparr>"

definition getMaxScaleHint_decl :: method_decl where
  "getMaxScaleHint_decl =
    \<lparr> m_name = ''getMaxScaleHint'', m_params = [],
      m_return = T_float, m_const = False, m_pure_virtual = True \<rparr>"

definition getDrawingAspectRatio_decl :: method_decl where
  "getDrawingAspectRatio_decl =
    \<lparr> m_name = ''getDrawingAspectRatio'',
      m_params = [(T_int, ''surfaceWidth''), (T_int, ''surfaceHeight'')],
      m_return = T_float, m_const = True, m_pure_virtual = True \<rparr>"

definition isStereoStretched_decl :: method_decl where
  "isStereoStretched_decl =
    \<lparr> m_name = ''isStereoStretched'', m_params = [],
      m_return = T_bool, m_const = False, m_pure_virtual = True \<rparr>"

definition getProjectionMatrix_decl :: method_decl where
  "getProjectionMatrix_decl =
    \<lparr> m_name = ''getProjectionMatrix'',
      m_params = [(T_EyewearCalibrationReading_array, ''reading''),
                  (T_int, ''numReadings''),
                  (T_Matrix44F_ref, ''calibrationResult'')],
      m_return = T_bool, m_const = False, m_pure_virtual = True \<rparr>"

definition EyewearUserCalibrator_decl :: class_decl where
  "EyewearUserCalibrator_decl =
    \<lparr> c_name = ''EyewearUserCalibrator'',
      c_bases = [(Private, ''NonCopyable'')],
      c_public = [init_decl, getMinScaleHint_decl, getMaxScaleHint_decl,
                  getDrawingAspectRatio_decl, isStereoStretched_decl,
                  getProjectionMatrix_decl] \<rparr>"

text \<open>The abstract operations of a class: its pure virtual member functions.\<close>

definition abstract_operations :: "class_decl \<Rightarrow> method_decl list" where
  "abstract_operations c = filter m_pure_virtual (c_public c)"

section \<open>The shape of the interface\<close>

lemma abstract_operations_EyewearUserCalibrator:
  "abstract_operations EyewearUserCalibrator_decl = c_public EyewearUserCalibrator_decl"
  by (simp add: abstract_operations_def EyewearUserCalibrator_decl_def init_decl_def
      getMinScaleHint_decl_def getMaxScaleHint_decl_def getDrawingAspectRatio_decl_def
      isStereoStretched_decl_def getProjectionMatrix_decl_def)

lemma length_c_public_EyewearUserCalibrator:
  "length (c_public EyewearUserCalibrator_decl) = 6"
  by (simp add: EyewearUserCalibrator_decl_def)

lemma names_c_public_EyewearUserCalibrator:
  "map m_name (c_public EyewearUserCalibrator_decl) =
     [''init'', ''getMinScaleHint'', ''getMaxScaleHint'', ''getDrawingAspectRatio'',
      ''isStereoStretched'', ''getProjectionMatrix'']"
  by (simp add: EyewearUserCalibrator_decl_def init_decl_def
      getMinScaleHint_decl_def getMaxScaleHint_decl_def getDrawingAspectRatio_decl_def
      isStereoStretched_decl_def getProjectionMatrix_decl_def)

text \<open>
  C8, as the specification words it: the interface exposes exactly five abstract
  operations. The header declares six pure virtual member functions, so the count of
  five does not hold.
\<close>

theorem abstract_operations_not_five:
  "length (abstract_operations EyewearUserCalibrator_decl) \<noteq> 5"
  by (simp add: abstract_operations_EyewearUserCalibrator
      length_c_public_EyewearUserCalibrator)

text \<open>
  C8, amended: the interface exposes exactly six abstract operations, which are
  \<^verbatim>\<open>init\<close>, \<^verbatim>\<open>getMinScaleHint\<close>, \<^verbatim>\<open>getMaxScaleHint\<close>, \<^verbatim>\<open>getDrawingAspectRatio\<close>,
  \<^verbatim>\<open>isStereoStretched\<close> and \<^verbatim>\<open>getProjectionMatrix\<close>, pairwise different, and the class
  has no other member: every member it declares is one of these pure virtual functions.
\<close>

theorem abstract_operations_exactly_six:
  "length (abstract_operations EyewearUserCalibrator_decl) = 6 \<and>
   map m_name (abstract_operations EyewearUserCalibrator_decl) =
     [''init'', ''getMinScaleHint'', ''getMaxScaleHint'', ''getDrawingAspectRatio'',
      ''isStereoStretched'', ''getProjectionMatrix''] \<and>
   distinct (map m_name (abstract_operations EyewearUserCalibrator_decl)) \<and>
   c_public EyewearUserCalibrator_decl = abstract_operations EyewearUserCalibrator_decl"
  by (simp add: abstract_operations_EyewearUserCalibrator
      length_c_public_EyewearUserCalibrator names_c_public_EyewearUserCalibrator)

end
